theory Spec2Isabelle
  imports Complex_Main "HOL-Library.Word" "HOL-Library.Char_ord" "HOL-Library.List_Lexorder"
begin

section \<open>Shallow embedding of \<open>cls_tabular_utils.h\<close> (namespace \<open>Tables\<close>)\<close>

subsection \<open>Machine integers\<close>

text \<open>
  A C++ \<open>int\<close> is a 32-bit two's complement value, read with \<open>sint\<close>;
  \<open>uint64_t\<close> is a 64-bit word, read with \<open>unat\<close>.
\<close>

type_synonym cxx_int = "32 word"
type_synonym uint64_t = "64 word"

subsection \<open>Error codes\<close>

text \<open>\<open>enum TablesErrCodes\<close>: the first enumerator is 1, the others count up.\<close>

datatype TablesErrCodes =
    EmptySchema | BadColInfoFormat | BadColInfoConversion | UnsupportedSkyDataType
  | UnsupportedAggDataType | UnknownSkyDataType | RequestedColIndexOOB
  | PredicateComparisonNotDefined | PredicateRegexPatternNotSet | OpNotRecognized
  | OpNotImplemented | BuildSkyIndexDecodeBlsErr | BuildSkyIndexExtractFbErr
  | BuildSkyIndexUnsupportedColType | BuildSkyIndexColTypeNotImplemented
  | BuildSkyIndexUnsupportedNumCols | BuildSkyIndexUnsupportedAggCol
  | BuildSkyIndexKeyCreationFailed | RowIndexOOB

fun err_code :: "TablesErrCodes \<Rightarrow> int" where
  "err_code EmptySchema = 1"
| "err_code BadColInfoFormat = 2"
| "err_code BadColInfoConversion = 3"
| "err_code UnsupportedSkyDataType = 4"
| "err_code UnsupportedAggDataType = 5"
| "err_code UnknownSkyDataType = 6"
| "err_code RequestedColIndexOOB = 7"
| "err_code PredicateComparisonNotDefined = 8"
| "err_code PredicateRegexPatternNotSet = 9"
| "err_code OpNotRecognized = 10"
| "err_code OpNotImplemented = 11"
| "err_code BuildSkyIndexDecodeBlsErr = 12"
| "err_code BuildSkyIndexExtractFbErr = 13"
| "err_code BuildSkyIndexUnsupportedColType = 14"
| "err_code BuildSkyIndexColTypeNotImplemented = 15"
| "err_code BuildSkyIndexUnsupportedNumCols = 16"
| "err_code BuildSkyIndexUnsupportedAggCol = 17"
| "err_code BuildSkyIndexKeyCreationFailed = 18"
| "err_code RowIndexOOB = 19"

subsection \<open>Failures\<close>

text \<open>
  The ways in which a call of the header's code does not return normally. The
  \<open>assert\<close> of the header is the one of the Ceph headers it includes, which is kept
  in every build: a false condition aborts the process.
  \<open>InvalidArgument\<close> and \<open>OutOfRange\<close> are the two exceptions of \<open>std::stoi\<close>;
  \<open>UndefinedBehaviour\<close> marks the dereference of a pointer that was never assigned;
  \<open>TablesErr\<close> carries an error code of the enumeration above.
\<close>

datatype failure =
  AssertionFailed | InvalidArgument | OutOfRange | UndefinedBehaviour | TablesErr TablesErrCodes

definition cxx_assert :: "bool \<Rightarrow> failure + unit" where
  "cxx_assert b = (if b then Inr () else Inl AssertionFailed)"

text \<open>Sequencing of calls that may fail: the first failure ends the computation.\<close>

definition and_then :: "failure + 'a \<Rightarrow> ('a \<Rightarrow> failure + 'b) \<Rightarrow> failure + 'b" where
  "and_then r f = (case r of Inl e \<Rightarrow> Inl e | Inr x \<Rightarrow> f x)"

subsection \<open>Column types and operators\<close>

text \<open>\<open>enum SkyDataType\<close>, with \<open>SDT_FIRST = SDT_INT8\<close> and \<open>SDT_LAST = SDT_STRING\<close>.\<close>

datatype SkyDataType =
    SDT_INT8 | SDT_INT16 | SDT_INT32 | SDT_INT64
  | SDT_UINT8 | SDT_UINT16 | SDT_UINT32 | SDT_UINT64
  | SDT_CHAR | SDT_UCHAR | SDT_BOOL | SDT_FLOAT | SDT_DOUBLE | SDT_DATE | SDT_STRING

fun sdt_code :: "SkyDataType \<Rightarrow> int" where
  "sdt_code SDT_INT8 = 1"
| "sdt_code SDT_INT16 = 2"
| "sdt_code SDT_INT32 = 3"
| "sdt_code SDT_INT64 = 4"
| "sdt_code SDT_UINT8 = 5"
| "sdt_code SDT_UINT16 = 6"
| "sdt_code SDT_UINT32 = 7"
| "sdt_code SDT_UINT64 = 8"
| "sdt_code SDT_CHAR = 9"
| "sdt_code SDT_UCHAR = 10"
| "sdt_code SDT_BOOL = 11"
| "sdt_code SDT_FLOAT = 12"
| "sdt_code SDT_DOUBLE = 13"
| "sdt_code SDT_DATE = 14"
| "sdt_code SDT_STRING = 15"

definition SDT_FIRST :: int where
  "SDT_FIRST = sdt_code SDT_INT8"

definition SDT_LAST :: int where
  "SDT_LAST = sdt_code SDT_STRING"

text \<open>An \<open>int\<close> compared with an enumerator, as in \<open>col_type==SDT_STRING\<close>.\<close>

definition is_sdt :: "cxx_int \<Rightarrow> SkyDataType \<Rightarrow> bool" where
  "is_sdt t d = (sint t = sdt_code d)"

text \<open>\<open>enum SkyOpType\<close>, \<open>SOT_lt = 1\<close> up to \<open>SOT_bitwise_or = 26\<close>.\<close>

datatype SkyOpType =
    SOT_lt | SOT_gt | SOT_eq | SOT_ne | SOT_leq | SOT_geq
  | SOT_add | SOT_sub | SOT_mul | SOT_div | SOT_min | SOT_max | SOT_sum | SOT_cnt
  | SOT_like | SOT_in | SOT_not_in | SOT_between
  | SOT_logical_or | SOT_logical_and | SOT_logical_not | SOT_logical_nor
  | SOT_logical_xor | SOT_logical_nand | SOT_bitwise_and | SOT_bitwise_or

definition sot_all :: "SkyOpType list" where
  "sot_all =
    [SOT_lt, SOT_gt, SOT_eq, SOT_ne, SOT_leq, SOT_geq,
     SOT_add, SOT_sub, SOT_mul, SOT_div, SOT_min, SOT_max, SOT_sum, SOT_cnt,
     SOT_like, SOT_in, SOT_not_in, SOT_between,
     SOT_logical_or, SOT_logical_and, SOT_logical_not, SOT_logical_nor,
     SOT_logical_xor, SOT_logical_nand, SOT_bitwise_and, SOT_bitwise_or]"

fun sot_code :: "SkyOpType \<Rightarrow> int" where
  "sot_code SOT_lt = 1"
| "sot_code SOT_gt = 2"
| "sot_code SOT_eq = 3"
| "sot_code SOT_ne = 4"
| "sot_code SOT_leq = 5"
| "sot_code SOT_geq = 6"
| "sot_code SOT_add = 7"
| "sot_code SOT_sub = 8"
| "sot_code SOT_mul = 9"
| "sot_code SOT_div = 10"
| "sot_code SOT_min = 11"
| "sot_code SOT_max = 12"
| "sot_code SOT_sum = 13"
| "sot_code SOT_cnt = 14"
| "sot_code SOT_like = 15"
| "sot_code SOT_in = 16"
| "sot_code SOT_not_in = 17"
| "sot_code SOT_between = 18"
| "sot_code SOT_logical_or = 19"
| "sot_code SOT_logical_and = 20"
| "sot_code SOT_logical_not = 21"
| "sot_code SOT_logical_nor = 22"
| "sot_code SOT_logical_xor = 23"
| "sot_code SOT_logical_nand = 24"
| "sot_code SOT_bitwise_and = 25"
| "sot_code SOT_bitwise_or = 26"

text \<open>
  The label a \<open>switch\<close> over the operators jumps to: the enumerator whose value is the
  \<open>int\<close>, or none (the \<open>default\<close> label).
\<close>

definition sot_of :: "cxx_int \<Rightarrow> SkyOpType option" where
  "sot_of op = find (\<lambda>s. sot_code s = sint op) sot_all"

text \<open>The \<open>int\<close> an enumerator converts to when it is passed as an operator.\<close>

definition sot_int :: "SkyOpType \<Rightarrow> cxx_int" where
  "sot_int s = word_of_int (sot_code s)"

subsection \<open>\<open>computeAgg\<close>\<close>

text \<open>
  The \<open>switch\<close> of \<open>computeAgg\<close> has no \<open>break\<close>: a case whose \<open>if\<close> does not
  return runs on into the next case. One function per label, each ending in the
  label below it, follows that control flow. The \<open>default\<close> label asserts the
  enumerator \<open>OpNotImplemented\<close> itself, as a truth value, and then leaves the
  \<open>switch\<close>, after which \<open>oldval\<close> is returned.
\<close>

definition agg_case_cnt :: "'a::{ord,plus,one} \<Rightarrow> 'a \<Rightarrow> failure + 'a" where
  "agg_case_cnt val oldval = Inr (oldval + 1)"

definition agg_case_sum :: "'a::{ord,plus,one} \<Rightarrow> 'a \<Rightarrow> failure + 'a" where
  "agg_case_sum val oldval = Inr (oldval + val)"

definition agg_case_max :: "'a::{ord,plus,one} \<Rightarrow> 'a \<Rightarrow> failure + 'a" where
  "agg_case_max val oldval = (if val > oldval then Inr val else agg_case_sum val oldval)"

definition agg_case_min :: "'a::{ord,plus,one} \<Rightarrow> 'a \<Rightarrow> failure + 'a" where
  "agg_case_min val oldval = (if val < oldval then Inr val else agg_case_max val oldval)"

definition agg_default :: "'a::{ord,plus,one} \<Rightarrow> 'a \<Rightarrow> failure + 'a" where
  "agg_default val oldval =
     and_then (cxx_assert (err_code OpNotImplemented \<noteq> 0)) (\<lambda>_. Inr oldval)"

definition computeAgg :: "'a::{ord,plus,one} \<Rightarrow> 'a \<Rightarrow> cxx_int \<Rightarrow> failure + 'a" where
  "computeAgg val oldval op =
     (case sot_of op of
        Some SOT_min \<Rightarrow> agg_case_min val oldval
      | Some SOT_max \<Rightarrow> agg_case_max val oldval
      | Some SOT_sum \<Rightarrow> agg_case_sum val oldval
      | Some SOT_cnt \<Rightarrow> agg_case_cnt val oldval
      | _ \<Rightarrow> agg_default val oldval)"

text \<open>
  The running aggregate over a sequence of values: each value is folded into the
  accumulator by one call of \<open>computeAgg\<close>, the accumulator being \<open>oldval\<close>.
\<close>

fun fold_agg :: "cxx_int \<Rightarrow> 'a::{ord,plus,one} list \<Rightarrow> 'a \<Rightarrow> failure + 'a" where
  "fold_agg op [] acc = Inr acc"
| "fold_agg op (v # vs) acc = and_then (computeAgg v acc op) (fold_agg op vs)"

subsection \<open>Decimal text\<close>

text \<open>
  The digit characters and the two directions of decimal notation: \<open>to_decimal\<close> is what
  \<open>operator<<\<close> and \<open>std::to_string\<close> print for a non-negative integer (no leading zero,
  \<open>0\<close> as one digit), \<open>digits_value\<close> is the value of a run of digits read from the left.
\<close>

definition digit_char :: "nat \<Rightarrow> char" where
  "digit_char d = char_of (48 + d)"

definition is_digit :: "char \<Rightarrow> bool" where
  "is_digit c = (48 \<le> (of_char c :: nat) \<and> (of_char c :: nat) \<le> 57)"

definition digit_val :: "char \<Rightarrow> nat" where
  "digit_val c = of_char c - 48"

fun to_decimal :: "nat \<Rightarrow> string" where
  "to_decimal n = (if n < 10 then [digit_char n] else to_decimal (n div 10) @ [digit_char (n mod 10)])"

declare to_decimal.simps [simp del]

fun digits_value :: "nat \<Rightarrow> string \<Rightarrow> nat" where
  "digits_value acc [] = acc"
| "digits_value acc (c # cs) = digits_value (10 * acc + digit_val c) cs"

subsection \<open>\<open>u64tostr\<close> and \<open>strtou64\<close>\<close>

text \<open>
  \<open>ss << std::setw(20) << std::setfill('0') << value\<close>: the stream right-adjusts the
  digits in a field of 20 characters and fills on the left; a text that is already
  as long as the field is not padded (and never cut).
\<close>

definition setw_setfill :: "nat \<Rightarrow> char \<Rightarrow> string \<Rightarrow> string" where
  "setw_setfill w c s = replicate (w - length s) c @ s"

definition u64tostr :: "uint64_t \<Rightarrow> string" where
  "u64tostr v = setw_setfill 20 (CHR ''0'') (to_decimal (unat v))"

text \<open>
  \<open>boost::lexical_cast<uint64_t>\<close> of a \<open>std::string\<close>, in the classic locale, as the
  library documents it: an optional sign, then one or more decimal digits up to the
  end of the text; leading zeros are accepted; a value above \<open>2^64 - 1\<close> is refused;
  a minus sign negates the value modulo \<open>2^64\<close>. \<open>None\<close> is \<open>bad_lexical_cast\<close>.
\<close>

definition lexical_cast_u64 :: "string \<Rightarrow> uint64_t option" where
  "lexical_cast_u64 s =
     (let neg = (s \<noteq> [] \<and> hd s = CHR ''-'');
          ds = (if s \<noteq> [] \<and> (hd s = CHR ''-'' \<or> hd s = CHR ''+'') then tl s else s)
      in if ds = [] \<or> \<not> list_all is_digit ds then None
         else if digits_value 0 ds > 2 ^ 64 - 1 then None
         else Some (if neg then - word_of_nat (digits_value 0 ds)
                    else word_of_nat (digits_value 0 ds)))"

text \<open>\<open>EIO\<close> of \<open>errno.h\<close>.\<close>

definition EIO :: int where
  "EIO = 5"

text \<open>
  \<open>strtou64 value out\<close>: the first component is the returned \<open>int\<close>, the second is what
  \<open>*out\<close> holds after the call, given what it held before. The log line of the
  \<open>catch\<close> block is not modelled.
\<close>

definition strtou64 :: "string \<Rightarrow> uint64_t \<Rightarrow> int \<times> uint64_t" where
  "strtou64 val out =
     (case lexical_cast_u64 val of
        None \<Rightarrow> (- EIO, out)
      | Some v \<Rightarrow> (0, v))"

subsection \<open>\<open>col_info\<close>\<close>

text \<open>
  What the constructors of \<open>col_info\<close> and \<open>toString\<close> take from the standard library.
  \<open>isspace\<close> is the classic locale's: the space and the characters 9 to 13.
  \<open>c_str\<close> followed by the conversion back to \<open>std::string\<close> keeps the text before the
  first NUL. \<open>str_front\<close> is \<open>s[0]\<close>, which for an empty string is the terminating NUL.
\<close>

definition isspace :: "char \<Rightarrow> bool" where
  "isspace c = ((of_char c :: nat) = 32 \<or> (9 \<le> (of_char c :: nat) \<and> (of_char c :: nat) \<le> 13))"

definition c_str :: "string \<Rightarrow> string" where
  "c_str s = takeWhile (\<lambda>c. c \<noteq> CHR 0x00) s"

definition str_front :: "string \<Rightarrow> char" where
  "str_front s = (case s of [] \<Rightarrow> CHR 0x00 | c # _ \<Rightarrow> c)"

text \<open>
  \<open>std::stoi\<close> in base 10: leading white space is skipped, one sign is accepted, the
  longest run of digits is read and what follows it is ignored. No digit at all is
  \<open>std::invalid_argument\<close>; a value that is not an \<open>int\<close> is \<open>std::out_of_range\<close>.
\<close>

definition stoi :: "string \<Rightarrow> failure + cxx_int" where
  "stoi s =
     (let s1 = dropWhile isspace s;
          neg = (s1 \<noteq> [] \<and> hd s1 = CHR ''-'');
          s2 = (if s1 \<noteq> [] \<and> (hd s1 = CHR ''-'' \<or> hd s1 = CHR ''+'') then tl s1 else s1);
          ds = takeWhile is_digit s2;
          v = (if neg then - int (digits_value 0 ds) else int (digits_value 0 ds))
      in if ds = [] then Inl InvalidArgument
         else if v < - (2 ^ 31) \<or> 2 ^ 31 - 1 < v then Inl OutOfRange
         else Inr (word_of_int v))"

text \<open>\<open>std::to_string\<close> of an \<open>int\<close>, and of a \<open>bool\<close>, which is promoted to \<open>int\<close> first.\<close>

definition to_string_int :: "cxx_int \<Rightarrow> string" where
  "to_string_int i =
     (if sint i < 0 then CHR ''-'' # to_decimal (nat (- sint i)) else to_decimal (nat (sint i)))"

definition to_string_bool :: "bool \<Rightarrow> string" where
  "to_string_bool b = to_string_int (if b then 1 else 0)"

record col_info =
  idx :: cxx_int
  type :: cxx_int
  is_key :: bool
  nullable :: bool
  name :: string

text \<open>The condition both constructors assert once the members are initialised.\<close>

definition type_in_range :: "cxx_int \<Rightarrow> bool" where
  "type_in_range t = (SDT_FIRST \<le> sint t \<and> sint t \<le> SDT_LAST)"

text \<open>\<open>col_info(int i, int t, bool key, bool nulls, std::string n)\<close>\<close>

definition col_info_ctor :: "cxx_int \<Rightarrow> cxx_int \<Rightarrow> bool \<Rightarrow> bool \<Rightarrow> string \<Rightarrow> failure + col_info" where
  "col_info_ctor i t key nulls n =
     and_then (cxx_assert (type_in_range t))
       (\<lambda>_. Inr \<lparr>idx = i, type = t, is_key = key, nullable = nulls, name = n\<rparr>)"

text \<open>
  \<open>col_info(std::string i, std::string t, std::string key, std::string nulls, std::string n)\<close>:
  the members are initialised in the order of their declaration, so \<open>i\<close> is converted
  before \<open>t\<close>, and an exception of \<open>std::stoi\<close> ends the construction.
\<close>

definition col_info_of_strings ::
    "string \<Rightarrow> string \<Rightarrow> string \<Rightarrow> string \<Rightarrow> string \<Rightarrow> failure + col_info" where
  "col_info_of_strings i t key nulls n =
     and_then (stoi (c_str i)) (\<lambda>iv.
     and_then (stoi (c_str t)) (\<lambda>tv.
     and_then (cxx_assert (type_in_range tv))
       (\<lambda>_. Inr \<lparr>idx = iv, type = tv,
                 is_key = (str_front key = CHR ''1''),
                 nullable = (str_front nulls = CHR ''1''),
                 name = n\<rparr>)))"

definition toString :: "col_info \<Rightarrow> string" where
  "toString c =
     ''   '' @ to_string_int (idx c) @ '' '' @ to_string_int (type c) @ '' '' @
     to_string_bool (is_key c) @ '' '' @ to_string_bool (nullable c) @ '' '' @
     name c @ ''   ''"

definition compareName :: "col_info \<Rightarrow> string \<Rightarrow> bool" where
  "compareName c colname = (if colname = name c then True else False)"

type_synonym schema_vec = "col_info list"

definition compareColInfo :: "col_info \<Rightarrow> col_info \<Rightarrow> bool" where
  "compareColInfo l r =
     (idx l = idx r \<and> type l = type r \<and> is_key l = is_key r \<and>
      nullable l = nullable r \<and> name l = name r)"

subsection \<open>Schemas as text\<close>

text \<open>
  The pieces of a text between separator characters, empty pieces left out;
  \<open>cur\<close> is the piece being read.
\<close>

fun split_fields :: "(char \<Rightarrow> bool) \<Rightarrow> string \<Rightarrow> string \<Rightarrow> string list" where
  "split_fields sep cur [] = (if cur = [] then [] else [cur])"
| "split_fields sep cur (c # cs) =
     (if sep c then (if cur = [] then split_fields sep [] cs else cur # split_fields sep [] cs)
      else split_fields sep (cur @ [c]) cs)"

text \<open>
  Modelled from the spec: the body of \<open>schemaFromString\<close>, which the header only
  declares. The spec gives the format: one column per line, the fields \<open>idx type
  is_key nullable name\<close> in this order, delimited by white space; a line with another
  number of fields is malformed (\<open>BadColInfoFormat\<close>). A line of white space only
  describes no column and is passed over. The descriptor of a line is built by the
  five-string constructor of \<open>col_info\<close>, whose failures are passed on as they are.
\<close>

definition ws_fields :: "string \<Rightarrow> string list" where
  "ws_fields line = split_fields isspace [] line"

definition col_info_of_line :: "string \<Rightarrow> failure + col_info" where
  "col_info_of_line line =
     (case ws_fields line of
        [i, t, key, nulls, n] \<Rightarrow> col_info_of_strings i t key nulls n
      | _ \<Rightarrow> Inl (TablesErr BadColInfoFormat))"

fun cols_of_lines :: "string list \<Rightarrow> failure + schema_vec" where
  "cols_of_lines [] = Inr []"
| "cols_of_lines (l # ls) =
     (if ws_fields l = [] then cols_of_lines ls
      else and_then (col_info_of_line l) (\<lambda>c.
           and_then (cols_of_lines ls) (\<lambda>cs. Inr (c # cs))))"

definition schemaFromString :: "string \<Rightarrow> failure + schema_vec" where
  "schemaFromString schema_string =
     cols_of_lines (split_fields (\<lambda>c. c = CHR 0x0A) [] schema_string)"

text \<open>
  The test schema of the TPC-H lineitem table, as the header spells it. A backslash at
  the end of a source line joins the next line to the literal, so every literal after
  the first starts with the four blanks of the indentation; \<open>nl\<close> is the \<open>\n\<close> of the
  literals. An enumerator given to \<open>std::to_string\<close> is printed as its \<open>int\<close>.
\<close>

definition nl :: string where
  "nl = [CHR 0x0A]"

definition sdt_int :: "SkyDataType \<Rightarrow> cxx_int" where
  "sdt_int d = word_of_int (sdt_code d)"

definition lineitem_test_schema_string :: string where
  "lineitem_test_schema_string =
     ''     0 '' @ to_string_int (sdt_int SDT_INT64) @ '' 1 0 orderkey '' @ nl @
     ''    1 '' @ to_string_int (sdt_int SDT_INT32) @ '' 0 1 partkey '' @ nl @
     ''    2 '' @ to_string_int (sdt_int SDT_INT32) @ '' 0 1 suppkey '' @ nl @
     ''    3 '' @ to_string_int (sdt_int SDT_INT64) @ '' 1 0 linenumber '' @ nl @
     ''    4 '' @ to_string_int (sdt_int SDT_FLOAT) @ '' 0 1 quantity '' @ nl @
     ''    5 '' @ to_string_int (sdt_int SDT_DOUBLE) @ '' 0 1 extendedprice '' @ nl @
     ''    6 '' @ to_string_int (sdt_int SDT_FLOAT) @ '' 0 1 discount '' @ nl @
     ''    7 '' @ to_string_int (sdt_int SDT_DOUBLE) @ '' 0 1 tax '' @ nl @
     ''    8 '' @ to_string_int (sdt_int SDT_CHAR) @ '' 0 1 returnflag '' @ nl @
     ''    9 '' @ to_string_int (sdt_int SDT_CHAR) @ '' 0 1 linestatus '' @ nl @
     ''    10 '' @ to_string_int (sdt_int SDT_DATE) @ '' 0 1 shipdate '' @ nl @
     ''    11 '' @ to_string_int (sdt_int SDT_DATE) @ '' 0 1 commitdate '' @ nl @
     ''    12 '' @ to_string_int (sdt_int SDT_DATE) @ '' 0 1 receipdate '' @ nl @
     ''    13 '' @ to_string_int (sdt_int SDT_STRING) @ '' 0 1 shipinstruct '' @ nl @
     ''    14 '' @ to_string_int (sdt_int SDT_STRING) @ '' 0 1 shipmode '' @ nl @
     ''    15 '' @ to_string_int (sdt_int SDT_STRING) @ '' 0 1 comment '' @ nl @
     ''    ''"

definition PROJECT_DEFAULT :: string where
  "PROJECT_DEFAULT = ''*''"

text \<open>
  Modelled from the spec: the body of \<open>schemaFromColNames\<close>, which the header only
  declares. For \<open>*\<close> the current schema is returned unchanged; otherwise the names are
  delimited by commas, and the result holds, in the order named, the descriptor of
  the current schema with each name (compared by \<open>compareName\<close>); a name that no
  column has fails with \<open>RequestedColIndexOOB\<close>.
\<close>

fun project_names :: "schema_vec \<Rightarrow> string list \<Rightarrow> failure + schema_vec" where
  "project_names current [] = Inr []"
| "project_names current (n # ns) =
     (case find (\<lambda>c. compareName c n) current of
        None \<Rightarrow> Inl (TablesErr RequestedColIndexOOB)
      | Some c \<Rightarrow> and_then (project_names current ns) (\<lambda>cs. Inr (c # cs)))"

definition schemaFromColNames :: "schema_vec \<Rightarrow> string \<Rightarrow> failure + schema_vec" where
  "schemaFromColNames current_schema project_col_names =
     (if project_col_names = PROJECT_DEFAULT then Inr current_schema
      else project_names current_schema
             (split_fields (\<lambda>c. c = CHR '','') [] project_col_names))"

subsection \<open>\<open>TypedPredicate\<close>\<close>

text \<open>
  The value types \<open>T\<close> a predicate is instantiated with, and the type traits the
  constructor asks of \<open>T\<close>. Plain \<open>char\<close> is a signed type on the x86-64 targets of
  the storage daemon. No type is a \<open>std::vector\<close> of itself.
\<close>

datatype cxx_type =
    T_bool | T_char | T_signed_char | T_unsigned_char
  | T_int16 | T_uint16 | T_int32 | T_uint32 | T_int64 | T_uint64
  | T_float | T_double | T_string

definition is_floating_point :: "cxx_type \<Rightarrow> bool" where
  "is_floating_point T = (T = T_float \<or> T = T_double)"

definition is_integral :: "cxx_type \<Rightarrow> bool" where
  "is_integral T = (T \<noteq> T_float \<and> T \<noteq> T_double \<and> T \<noteq> T_string)"

definition is_arithmetic :: "cxx_type \<Rightarrow> bool" where
  "is_arithmetic T = (is_integral T \<or> is_floating_point T)"

definition is_unsigned :: "cxx_type \<Rightarrow> bool" where
  "is_unsigned T =
     (T = T_bool \<or> T = T_unsigned_char \<or> T = T_uint16 \<or> T = T_uint32 \<or> T = T_uint64)"

definition is_same_as_vector_of :: "cxx_type \<Rightarrow> bool" where
  "is_same_as_vector_of T = False"

text \<open>
  The member \<open>const re2::RE2* regx\<close> has no initialiser: until it is assigned it
  points nowhere in particular. Once assigned it points to an \<open>RE2\<close> object, which keeps
  the pattern it was built from. Which patterns compile is the regular expression
  library's matter and is a parameter, \<open>re2_ok\<close>, of the constructor below.
\<close>

datatype re2_ptr = Unassigned | RE2 string

record 'v TypedPredicate =
  col_idx :: cxx_int
  col_type :: cxx_int
  op_type :: cxx_int
  is_global_agg :: bool
  regx :: re2_ptr
  "value" :: 'v

definition is_sot :: "cxx_int \<Rightarrow> SkyOpType \<Rightarrow> bool" where
  "is_sot op s = (sint op = sot_code s)"

text \<open>The \<open>switch\<close> of the constructor: it only asserts, case by case.\<close>

definition ctor_switch :: "cxx_type \<Rightarrow> cxx_int \<Rightarrow> cxx_int \<Rightarrow> failure + unit" where
  "ctor_switch T ct op =
     (case sot_of op of
        None \<Rightarrow> cxx_assert (err_code OpNotRecognized = 0)
      | Some s \<Rightarrow>
          if s \<in> set [SOT_lt, SOT_gt, SOT_eq, SOT_ne, SOT_leq, SOT_geq, SOT_add, SOT_sub,
                       SOT_mul, SOT_div, SOT_min, SOT_max, SOT_sum, SOT_cnt]
          then cxx_assert
                 (is_arithmetic T \<and>
                  (is_sdt ct SDT_INT8 \<or> is_sdt ct SDT_INT16 \<or> is_sdt ct SDT_INT32 \<or>
                   is_sdt ct SDT_INT64 \<or> is_sdt ct SDT_UINT8 \<or> is_sdt ct SDT_UINT16 \<or>
                   is_sdt ct SDT_UINT32 \<or> is_sdt ct SDT_UINT64 \<or> is_sdt ct SDT_BOOL \<or>
                   is_sdt ct SDT_CHAR \<or> is_sdt ct SDT_UCHAR \<or> is_sdt ct SDT_FLOAT \<or>
                   is_sdt ct SDT_DOUBLE))
          else if s = SOT_like
          then cxx_assert
                 ((T = T_string \<or> T = T_unsigned_char \<or> T = T_char) \<and>
                  (is_sdt ct SDT_STRING \<or> is_sdt ct SDT_CHAR \<or> is_sdt ct SDT_UCHAR))
          else if s \<in> set [SOT_in, SOT_not_in]
          then and_then (cxx_assert (is_same_as_vector_of T))
                 (\<lambda>_. cxx_assert (err_code OpNotImplemented = 0))
          else if s = SOT_between
          then cxx_assert (err_code OpNotImplemented = 0)
          else if s \<in> set [SOT_logical_or, SOT_logical_and, SOT_logical_not,
                            SOT_logical_nor, SOT_logical_xor, SOT_logical_nand]
          then and_then (cxx_assert (is_integral T))
                 (\<lambda>_. cxx_assert
                   (is_sdt ct SDT_INT8 \<or> is_sdt ct SDT_INT16 \<or> is_sdt ct SDT_INT32 \<or>
                    is_sdt ct SDT_INT64 \<or> is_sdt ct SDT_UINT8 \<or> is_sdt ct SDT_UINT16 \<or>
                    is_sdt ct SDT_UINT32 \<or> is_sdt ct SDT_UINT64 \<or> is_sdt ct SDT_BOOL \<or>
                    is_sdt ct SDT_CHAR \<or> is_sdt ct SDT_UCHAR))
          else if s \<in> set [SOT_bitwise_and, SOT_bitwise_or]
          then and_then (cxx_assert (is_integral T)) (\<lambda>_. cxx_assert (is_unsigned T))
          else cxx_assert (err_code OpNotRecognized = 0))"

text \<open>
  \<open>TypedPredicate(int idx, int type, int op, const T& val)\<close>. \<open>T\<close> is the value type of
  the instance and \<open>as_string\<close> is the assignment of a \<open>T\<close> to the \<open>std::string\<close>
  \<open>pattern\<close>. The members of the initialiser list are set first, \<open>regx\<close> not being
  among them; then the \<open>switch\<close> runs; then, for the match operator only, the pattern
  is compiled, \<open>regx\<close> is assigned and \<open>regx->ok()\<close> is asserted.
\<close>

definition TypedPredicate_ctor ::
    "cxx_type \<Rightarrow> ('v \<Rightarrow> string) \<Rightarrow> (string \<Rightarrow> bool) \<Rightarrow>
     cxx_int \<Rightarrow> cxx_int \<Rightarrow> cxx_int \<Rightarrow> 'v \<Rightarrow> failure + 'v TypedPredicate" where
  "TypedPredicate_ctor T as_string re2_ok i t op v =
     (let p = \<lparr>col_idx = i, col_type = t, op_type = op,
                is_global_agg = (is_sot op SOT_min \<or> is_sot op SOT_max \<or>
                                 is_sot op SOT_sum \<or> is_sot op SOT_cnt),
                regx = Unassigned, value = v\<rparr>
      in and_then (ctor_switch T (col_type p) (op_type p)) (\<lambda>_.
           if is_sot (op_type p) SOT_like
           then (let pattern = as_string (value p)
                 in and_then (cxx_assert (re2_ok pattern))
                      (\<lambda>_. Inr (p\<lparr>regx := RE2 pattern\<rparr>)))
           else Inr p))"

text \<open>
  The copy constructor: the four scalar members and the value are copied, and the
  body builds a new \<open>RE2\<close> from \<open>p.regx->pattern()\<close>, which reads through \<open>p.regx\<close>
  whatever the operator of \<open>p\<close> is.
\<close>

definition TypedPredicate_copy :: "'v TypedPredicate \<Rightarrow> failure + 'v TypedPredicate" where
  "TypedPredicate_copy p =
     (case regx p of
        Unassigned \<Rightarrow> Inl UndefinedBehaviour
      | RE2 pattern \<Rightarrow>
          Inr \<lparr>col_idx = col_idx p, col_type = col_type p, op_type = op_type p,
               is_global_agg = is_global_agg p, regx = RE2 pattern, value = value p\<rparr>)"

subsection \<open>Auxiliary notions for the proofs\<close>

text \<open>
  The \<open>k\<close> low decimal digits of \<open>n\<close>, most significant first: what a field of width
  \<open>k\<close> filled with \<open>0\<close> shows for a number below \<open>10^k\<close>.
\<close>
fun fixed_digits :: "nat \<Rightarrow> nat \<Rightarrow> string" where
  "fixed_digits 0 n = []"
| "fixed_digits (Suc k) n = fixed_digits k (n div 10) @ [digit_char (n mod 10)]"

section \<open>Properties\<close>

lemma sot_of_sot_int [simp]: "sot_of (sot_int s) = Some s"
  by (cases s) (simp_all add: sot_of_def sot_int_def sot_all_def)

subsection \<open>Aggregates\<close>

lemma computeAgg_sum: "computeAgg val oldval (sot_int SOT_sum) = Inr (oldval + val)"
  by (simp add: computeAgg_def agg_case_sum_def)

lemma computeAgg_cnt: "computeAgg val oldval (sot_int SOT_cnt) = Inr (oldval + 1)"
  by (simp add: computeAgg_def agg_case_cnt_def)

lemma computeAgg_max:
  "computeAgg val oldval (sot_int SOT_max) = Inr (if oldval < val then val else oldval + val)"
  by (simp add: computeAgg_def agg_case_max_def agg_case_sum_def)

lemma computeAgg_min:
  "computeAgg val oldval (sot_int SOT_min) =
     Inr (if val < oldval \<or> oldval < val then val else oldval + val)"
  by (simp add: computeAgg_def agg_case_min_def agg_case_max_def agg_case_sum_def)

text \<open>
  C1. \<open>computeAgg\<close> with MIN does not keep the smaller value and with MAX does not keep
  the larger one: the new value 5 against the running minimum 3 gives 5, and the new
  value 3 against the running maximum 5 gives their sum 8, because a case that does
  not return falls through into the next one. SUM and COUNT are as the claim says
  (\<open>computeAgg_sum\<close>, \<open>computeAgg_cnt\<close>).
\<close>

theorem computeAgg_min_max_fall_through:
  "computeAgg (5::int) 3 (sot_int SOT_min) = Inr 5 \<and>
   computeAgg (3::int) 5 (sot_int SOT_max) = Inr 8 \<and>
   computeAgg (3::int) 3 (sot_int SOT_min) = Inr 6"
  by (simp add: computeAgg_min computeAgg_max)

text \<open>
  C2. Folding \<open>computeAgg\<close> with SUM over 1.0, 5.0, 10.0 from the accumulator 0 gives
  16.0, and with COUNT gives 3. The values, and every partial sum, are small whole
  numbers, which \<open>float\<close> and \<open>double\<close> hold and add exactly, so the sums are those of
  the real numbers.
\<close>

theorem fold_agg_sum_cnt:
  "fold_agg (sot_int SOT_sum) [1, 5, 10] (0::real) = Inr 16 \<and>
   fold_agg (sot_int SOT_cnt) [1, 5, 10] (0::real) = Inr 3"
  by (simp add: computeAgg_sum computeAgg_cnt and_then_def)

subsection \<open>Index keys\<close>

lemma length_fixed_digits [simp]: "length (fixed_digits k n) = k"
  by (induction k arbitrary: n) simp_all

lemma fixed_digits_zero: "fixed_digits k 0 = replicate k (CHR ''0'')"
proof (induction k)
  case 0
  show ?case by simp
next
  case (Suc k)
  have "digit_char 0 = CHR ''0''" by code_simp
  with Suc show ?case by (simp add: replicate_append_same)
qed

lemma length_to_decimal: "0 < k \<Longrightarrow> n < 10 ^ k \<Longrightarrow> length (to_decimal n) \<le> k"
proof (induction k arbitrary: n)
  case 0
  then show ?case by simp
next
  case (Suc k)
  show ?case
  proof (cases "n < 10")
    case True
    then show ?thesis by (simp add: to_decimal.simps)
  next
    case False
    with Suc.prems have k: "0 < k" by (cases k) auto
    from Suc.prems have "n div 10 < 10 ^ k" by (simp add: less_mult_imp_div_less mult.commute)
    with Suc.IH k have "length (to_decimal (n div 10)) \<le> k" by blast
    with False show ?thesis by (subst to_decimal.simps) simp
  qed
qed

lemma setw_to_decimal:
  "0 < k \<Longrightarrow> n < 10 ^ k \<Longrightarrow> setw_setfill k (CHR ''0'') (to_decimal n) = fixed_digits k n"
proof (induction k arbitrary: n)
  case 0
  then show ?case by simp
next
  case (Suc k)
  show ?case
  proof (cases "n < 10")
    case True
    then have "n div 10 = 0" "n mod 10 = n" by simp_all
    with True show ?thesis
      by (simp add: setw_setfill_def to_decimal.simps fixed_digits_zero)
  next
    case False
    with Suc.prems have k: "0 < k" by (cases k) auto
    from Suc.prems have lt: "n div 10 < 10 ^ k" by (simp add: less_mult_imp_div_less mult.commute)
    from Suc.IH [OF k lt]
    have ih: "replicate (k - length (to_decimal (n div 10))) (CHR ''0'') @ to_decimal (n div 10)
              = fixed_digits k (n div 10)"
      by (simp add: setw_setfill_def)
    have td: "to_decimal n = to_decimal (n div 10) @ [digit_char (n mod 10)]"
      using False by (subst to_decimal.simps) simp
    show ?thesis
      by (simp add: setw_setfill_def td ih)
  qed
qed

lemma digit_char_less: "a < 10 \<Longrightarrow> b < 10 \<Longrightarrow> a < b \<Longrightarrow> digit_char a < digit_char b"
  by (simp add: digit_char_def less_char_def)

lemma fixed_digits_less:
  "m < n \<Longrightarrow> n < 10 ^ k \<Longrightarrow> fixed_digits k m < fixed_digits k n"
proof (induction k arbitrary: m n)
  case 0
  then show ?case by simp
next
  case (Suc k)
  from Suc.prems have nk: "n div 10 < 10 ^ k" by (simp add: less_mult_imp_div_less mult.commute)
  from Suc.prems have "m div 10 \<le> n div 10" by (simp add: div_le_mono)
  then consider (lt) "m div 10 < n div 10" | (eq) "m div 10 = n div 10" by linarith
  then show ?case
  proof cases
    case lt
    from Suc.IH [OF lt nk] have "(fixed_digits k (m div 10), fixed_digits k (n div 10)) \<in> lexord {(u, v). u < v}"
      by (simp add: list_less_def)
    then have "(fixed_digits k (m div 10) @ [digit_char (m mod 10)],
                fixed_digits k (n div 10) @ [digit_char (n mod 10)]) \<in> lexord {(u, v). u < v}"
      by (rule lexord_sufI) simp
    then show ?thesis by (simp add: list_less_def)
  next
    case eq
    with Suc.prems have "m mod 10 < n mod 10"
      by (metis div_mult_mod_eq nat_add_left_cancel_less)
    then have "digit_char (m mod 10) < digit_char (n mod 10)"
      by (intro digit_char_less) simp_all
    then have "([digit_char (m mod 10)], [digit_char (n mod 10)]) \<in> lexord {(u, v). u < v}"
      by simp
    then have "(fixed_digits k (n div 10) @ [digit_char (m mod 10)],
                fixed_digits k (n div 10) @ [digit_char (n mod 10)]) \<in> lexord {(u, v). u < v}"
      by (simp only: lexord_append_leftI)
    with eq show ?thesis by (simp add: list_less_def)
  qed
qed

lemma is_digit_digit_char: "d < 10 \<Longrightarrow> is_digit (digit_char d)"
  by (simp add: is_digit_def digit_char_def)

lemma digit_val_digit_char: "d < 10 \<Longrightarrow> digit_val (digit_char d) = d"
  by (simp add: digit_val_def digit_char_def)

lemma digits_value_append:
  "digits_value acc (xs @ ys) = digits_value (digits_value acc xs) ys"
  by (induction xs arbitrary: acc) simp_all

lemma digits_value_fixed_digits:
  "digits_value 0 (fixed_digits k n) = n mod 10 ^ k"
proof (induction k arbitrary: n)
  case 0
  show ?case by simp
next
  case (Suc k)
  have "digits_value 0 (fixed_digits (Suc k) n) = 10 * ((n div 10) mod 10 ^ k) + n mod 10"
    by (simp add: digits_value_append Suc.IH digit_val_digit_char)
  also have "\<dots> = n mod 10 ^ Suc k"
    by (simp add: mod_mult2_eq add.commute)
  finally show ?case .
qed

lemma list_all_fixed_digits: "list_all is_digit (fixed_digits k n)"
  by (induction k arbitrary: n) (simp_all add: is_digit_digit_char)

lemma unat_u64_bound: "unat (v :: uint64_t) < 10 ^ 20"
proof -
  have "unat v < 2 ^ 64" using unsigned_less [of v] by simp
  also have "(2::nat) ^ 64 < 10 ^ 20" by simp
  finally show ?thesis .
qed

lemma u64tostr_fixed: "u64tostr v = fixed_digits 20 (unat v)"
proof -
  have "unat v < 10 ^ 20" by (rule unat_u64_bound)
  then have "setw_setfill 20 (CHR ''0'') (to_decimal (unat v)) = fixed_digits 20 (unat v)"
    by (intro setw_to_decimal) simp_all
  then show ?thesis by (simp add: u64tostr_def)
qed

lemma fixed_digits_not_Nil: "0 < k \<Longrightarrow> fixed_digits k n \<noteq> []"
  by (cases k) simp_all

lemma hd_fixed_digits: "0 < k \<Longrightarrow> is_digit (hd (fixed_digits k n))"
  using list_all_fixed_digits [of k n]
  by (cases "fixed_digits k n") (auto dest: arg_cong [where f = length])

lemma lexical_cast_u64tostr: "lexical_cast_u64 (u64tostr v) = Some v"
proof -
  let ?s = "fixed_digits 20 (unat v)"
  have ne: "?s \<noteq> []" by (rule fixed_digits_not_Nil) simp
  have hd: "is_digit (hd ?s)" by (rule hd_fixed_digits) simp
  then have nosign: "hd ?s \<noteq> CHR ''-''" "hd ?s \<noteq> CHR ''+''"
    by (auto simp: is_digit_def)
  have val: "digits_value 0 ?s = unat v"
    using unat_u64_bound [of v] by (simp add: digits_value_fixed_digits)
  have "unat v < 2 ^ 64" using unsigned_less [of v] by simp
  then have le: "unat v \<le> 2 ^ 64 - 1" by simp
  show ?thesis
    using ne nosign le
    by (simp add: lexical_cast_u64_def u64tostr_fixed list_all_fixed_digits val Let_def)
qed

lemma to_decimal_u64_length: "length (to_decimal (unat (v :: uint64_t))) \<le> 20"
  using unat_u64_bound [of v] by (intro length_to_decimal) simp_all

text \<open>
  C3. \<open>u64tostr\<close> keeps the order: for 64-bit values \<open>v1 < v2\<close> the key of \<open>v1\<close> is
  below the key of \<open>v2\<close> in the lexicographic order of strings. Every key has exactly
  20 characters: the decimal digits of the value (at most 20 of them), with \<open>0\<close>
  filled in on the left; all 20 are digits, and read as a decimal number they are
  the value.
\<close>

theorem u64tostr_order_width:
  "(v1 < v2 \<longrightarrow> u64tostr v1 < u64tostr v2) \<and>
   length (u64tostr v) = 20 \<and>
   length (to_decimal (unat v)) \<le> 20 \<and>
   u64tostr v = replicate (20 - length (to_decimal (unat v))) (CHR ''0'') @ to_decimal (unat v) \<and>
   list_all is_digit (u64tostr v) \<and>
   digits_value 0 (u64tostr v) = unat v"
proof (intro conjI impI)
  assume "v1 < v2"
  then have "unat v1 < unat v2" by (simp add: word_less_nat_alt)
  then have "fixed_digits 20 (unat v1) < fixed_digits 20 (unat v2)"
    by (rule fixed_digits_less) (rule unat_u64_bound)
  then show "u64tostr v1 < u64tostr v2" by (simp only: u64tostr_fixed)
next
  show "length (u64tostr v) = 20" by (simp add: u64tostr_fixed)
next
  show "length (to_decimal (unat v)) \<le> 20" by (rule to_decimal_u64_length)
next
  show "u64tostr v = replicate (20 - length (to_decimal (unat v))) (CHR ''0'') @ to_decimal (unat v)"
    by (simp add: u64tostr_def setw_setfill_def)
next
  show "list_all is_digit (u64tostr v)"
    by (simp only: u64tostr_fixed list_all_fixed_digits)
next
  have "digits_value 0 (fixed_digits 20 (unat v)) = unat v mod 10 ^ 20"
    by (rule digits_value_fixed_digits)
  also have "\<dots> = unat v" using unat_u64_bound [of v] by simp
  finally show "digits_value 0 (u64tostr v) = unat v" by (simp only: u64tostr_fixed)
qed

theorem u64tostr_order_width_witness:
  "(9 :: uint64_t) < 10 \<and> u64tostr 9 < u64tostr 10 \<and> length (u64tostr 10) = 20"
proof -
  have "(9 :: uint64_t) < 10" by simp
  with u64tostr_order_width [of 9 10 10] show ?thesis by blast
qed

text \<open>
  C4. The key encoding round-trips: \<open>strtou64\<close> on \<open>u64tostr v\<close> returns 0 and stores
  \<open>v\<close>, whatever \<open>*out\<close> held before. On the non-numeric text \<open>abc\<close> it returns the
  negative code \<open>-EIO\<close> and leaves \<open>*out\<close> as it was.
\<close>

theorem strtou64_u64tostr:
  "strtou64 (u64tostr v) out = (0, v) \<and>
   fst (strtou64 ''abc'' out) = - EIO \<and> fst (strtou64 ''abc'' out) < 0 \<and>
   snd (strtou64 ''abc'' out) = out"
proof -
  have good: "strtou64 (u64tostr v) out = (0, v)"
    by (simp add: strtou64_def lexical_cast_u64tostr)
  have bad: "strtou64 ''abc'' out = (- EIO, out)"
    by (simp add: strtou64_def lexical_cast_u64_def is_digit_def)
  show ?thesis by (simp add: good bad EIO_def)
qed

subsection \<open>Column descriptors\<close>

lemma to_decimal_not_Nil [simp]: "to_decimal n \<noteq> []"
  by (subst to_decimal.simps) simp

lemma list_all_to_decimal: "list_all is_digit (to_decimal n)"
proof (induction n rule: to_decimal.induct)
  case (1 n)
  show ?case
  proof (cases "n < 10")
    case True
    then show ?thesis by (subst to_decimal.simps) (simp add: is_digit_digit_char)
  next
    case False
    with "1" show ?thesis by (subst to_decimal.simps) (simp add: is_digit_digit_char)
  qed
qed

lemma digits_value_to_decimal: "digits_value 0 (to_decimal n) = n"
proof (induction n rule: to_decimal.induct)
  case (1 n)
  show ?case
  proof (cases "n < 10")
    case True
    then show ?thesis by (subst to_decimal.simps) (simp add: digit_val_digit_char)
  next
    case False
    with "1" show ?thesis
      by (subst to_decimal.simps) (simp add: digits_value_append digit_val_digit_char)
  qed
qed

lemma is_digit_plain:
  assumes "is_digit c"
  shows "\<not> isspace c" and "c \<noteq> CHR 0x00" and "c \<noteq> CHR ''-''" and "c \<noteq> CHR ''+''"
  using assms by (auto simp: is_digit_def isspace_def)

lemma hd_to_decimal: "is_digit (hd (to_decimal n))"
  using list_all_to_decimal [of n] to_decimal_not_Nil [of n]
  by (cases "to_decimal n") simp_all

lemma takeWhile_list_all: "list_all P xs \<Longrightarrow> takeWhile P xs = xs"
  by (induction xs) simp_all

lemma dropWhile_hd: "xs \<noteq> [] \<Longrightarrow> \<not> P (hd xs) \<Longrightarrow> dropWhile P xs = xs"
  by (cases xs) simp_all

lemma c_str_digits: "list_all is_digit ds \<Longrightarrow> c_str ds = ds"
  unfolding c_str_def
  by (rule takeWhile_list_all) (auto simp: list_all_iff dest: is_digit_plain(2))

lemma stoi_to_decimal:
  assumes "int n \<le> 2 ^ 31 - 1"
  shows "stoi (to_decimal n) = Inr (word_of_int (int n))"
proof -
  let ?s = "to_decimal n"
  have d: "is_digit (hd ?s)" by (rule hd_to_decimal)
  have s1: "dropWhile isspace ?s = ?s"
    by (rule dropWhile_hd) (simp_all add: is_digit_plain(1) [OF d])
  have tw: "takeWhile is_digit ?s = ?s"
    by (rule takeWhile_list_all) (rule list_all_to_decimal)
  show ?thesis
    using assms is_digit_plain(3,4) [OF d]
    by (simp add: stoi_def s1 tw Let_def digits_value_to_decimal)
qed

lemma stoi_minus_to_decimal:
  assumes "int n \<le> 2 ^ 31"
  shows "stoi (CHR ''-'' # to_decimal n) = Inr (word_of_int (- int n))"
proof -
  let ?s = "to_decimal n"
  have sp: "\<not> isspace (CHR ''-'')" by (simp add: isspace_def)
  have tw: "takeWhile is_digit ?s = ?s"
    by (rule takeWhile_list_all) (rule list_all_to_decimal)
  show ?thesis
    using assms sp
    by (simp add: stoi_def tw Let_def digits_value_to_decimal)
qed

lemma c_str_to_string_int: "c_str (to_string_int i) = to_string_int i"
proof -
  have "c_str (CHR ''-'' # ds) = CHR ''-'' # c_str ds" for ds
    by (simp add: c_str_def)
  then show ?thesis
    by (simp add: to_string_int_def c_str_digits list_all_to_decimal)
qed

lemma stoi_to_string_int: "stoi (c_str (to_string_int i)) = Inr i"
proof (cases "sint i < 0")
  case True
  have ts: "to_string_int i = CHR ''-'' # to_decimal (nat (- sint i))"
    using True by (simp add: to_string_int_def)
  have "- (2 ^ 31) \<le> sint i" using sint_ge [of i] by simp
  then have le: "int (nat (- sint i)) \<le> 2 ^ 31" using True by simp
  have "stoi (c_str (to_string_int i)) = stoi (to_string_int i)"
    by (simp only: c_str_to_string_int)
  also have "\<dots> = Inr (word_of_int (- int (nat (- sint i))))"
    unfolding ts using le by (rule stoi_minus_to_decimal)
  also have "\<dots> = Inr i" using True by simp
  finally show ?thesis .
next
  case False
  have ts: "to_string_int i = to_decimal (nat (sint i))"
    using False by (simp add: to_string_int_def)
  have "sint i < 2 ^ 31" using sint_lt [of i] by simp
  then have le: "int (nat (sint i)) \<le> 2 ^ 31 - 1" using False by simp
  have "stoi (c_str (to_string_int i)) = stoi (to_string_int i)"
    by (simp only: c_str_to_string_int)
  also have "\<dots> = Inr (word_of_int (int (nat (sint i))))"
    unfolding ts using le by (rule stoi_to_decimal)
  also have "\<dots> = Inr i" using False by simp
  finally show ?thesis .
qed

lemma to_string_bool_eq: "to_string_bool b = (if b then ''1'' else ''0'')"
  by (cases b) (simp_all add: to_string_bool_def to_string_int_def to_decimal.simps digit_char_def, code_simp+)

lemma str_front_to_string_bool: "(str_front (to_string_bool b) = CHR ''1'') = b"
  by (simp add: to_string_bool_eq str_front_def)

lemma split_fields_token:
  "list_all (\<lambda>c. \<not> sep c) t \<Longrightarrow> split_fields sep cur (t @ rest) = split_fields sep (cur @ t) rest"
  by (induction t arbitrary: cur) simp_all

lemma split_fields_sep:
  "sep c \<Longrightarrow> cur \<noteq> [] \<Longrightarrow> split_fields sep cur (c # rest) = cur # split_fields sep [] rest"
  by simp

lemma no_space_to_string_int: "list_all (\<lambda>c. \<not> isspace c) (to_string_int i)"
proof -
  have "list_all (\<lambda>c. \<not> isspace c) (to_decimal n)" for n
    using list_all_to_decimal [of n] by (auto simp: list_all_iff dest: is_digit_plain(1))
  then show ?thesis by (simp add: to_string_int_def isspace_def)
qed

lemma to_string_int_not_Nil [simp]: "to_string_int i \<noteq> []"
  by (simp add: to_string_int_def)

lemma ws_fields_toString:
  assumes "name c \<noteq> []" and "list_all (\<lambda>ch. \<not> isspace ch) (name c)"
  shows "ws_fields (toString c) =
           [to_string_int (idx c), to_string_int (type c),
            to_string_bool (is_key c), to_string_bool (nullable c), name c]"
proof -
  have sp: "isspace (CHR '' '')" by (simp add: isspace_def)
  have tok: "split_fields isspace [] (t @ CHR '' '' # rest) = t # split_fields isspace [] rest"
    if "t \<noteq> []" and "list_all (\<lambda>ch. \<not> isspace ch) t" for t rest
    using that sp by (simp add: split_fields_token)
  have skip: "split_fields isspace [] (CHR '' '' # rest) = split_fields isspace [] rest" for rest
    using sp by simp
  have fin: "split_fields isspace [] [] = []" by simp
  have b: "to_string_bool x \<noteq> []" "list_all (\<lambda>ch. \<not> isspace ch) (to_string_bool x)" for x
    by (simp_all add: to_string_bool_def no_space_to_string_int)
  show ?thesis
    unfolding ws_fields_def toString_def
    using assms by (simp add: skip tok fin b no_space_to_string_int del: split_fields.simps)
qed


lemma col_info_of_strings_toString:
  assumes "type_in_range (type c)"
  shows "col_info_of_strings (to_string_int (idx c)) (to_string_int (type c))
           (to_string_bool (is_key c)) (to_string_bool (nullable c)) (name c) = Inr c"
  using assms
  by (simp add: col_info_of_strings_def stoi_to_string_int and_then_def cxx_assert_def
        str_front_to_string_bool)

text \<open>
  C5 (amended). For every column descriptor \<open>c\<close> whose type tag is in the supported
  range and whose name is not empty and has no white space in it, the text
  \<open>toString c\<close> has exactly five fields, and the five-string constructor applied to
  them gives a descriptor equal to \<open>c\<close> under \<open>compareColInfo\<close>.
\<close>

theorem col_info_toString_roundtrip:
  assumes "type_in_range (type c)"
    and "name c \<noteq> []"
    and "list_all (\<lambda>ch. \<not> isspace ch) (name c)"
  shows "\<exists>c'. col_info_of_line (toString c) = Inr c' \<and> compareColInfo c c'"
proof -
  have "col_info_of_line (toString c) = Inr c"
    using assms
    by (simp add: col_info_of_line_def ws_fields_toString col_info_of_strings_toString)
  moreover have "compareColInfo c c" by (simp add: compareColInfo_def)
  ultimately show ?thesis by blast
qed

lemma type_in_range_15: "type_in_range 15"
  by (simp add: type_in_range_def SDT_FIRST_def SDT_LAST_def)

lemma type_in_range_4: "type_in_range 4"
  by (simp add: type_in_range_def SDT_FIRST_def SDT_LAST_def)

theorem col_info_toString_roundtrip_witness:
  "type_in_range (type \<lparr>idx = 4, type = 12, is_key = False, nullable = True, name = ''quantity''\<rparr>) \<and>
   name \<lparr>idx = 4, type = 12, is_key = False, nullable = True, name = ''quantity''\<rparr> \<noteq> [] \<and>
   list_all (\<lambda>ch. \<not> isspace ch)
     (name \<lparr>idx = 4, type = 12, is_key = False, nullable = True, name = ''quantity''\<rparr>) \<and>
   (\<exists>c'. col_info_of_line
           (toString \<lparr>idx = 4, type = 12, is_key = False, nullable = True, name = ''quantity''\<rparr>) = Inr c' \<and>
         compareColInfo \<lparr>idx = 4, type = 12, is_key = False, nullable = True, name = ''quantity''\<rparr> c')"
proof -
  let ?c = "\<lparr>idx = 4, type = 12, is_key = False, nullable = True, name = ''quantity''\<rparr>"
  have h1: "type_in_range (type ?c)"
    by (simp add: type_in_range_def SDT_FIRST_def SDT_LAST_def)
  have h2: "name ?c \<noteq> []" by simp
  have h3: "list_all (\<lambda>ch. \<not> isspace ch) (name ?c)" by (simp add: isspace_def)
  from col_info_toString_roundtrip [OF h1 h2 h3] h1 h2 h3 show ?thesis by blast
qed

text \<open>
  C5 as stated fails: the descriptor with the supported type tag 15 and the name
  \<open>ship mode\<close> is constructed without failure, its text has six fields, not five, and
  no descriptor is built from it. Nor is one built from the text of the descriptor
  with the empty name, which has four fields.
\<close>

theorem col_info_toString_name_with_space:
  "col_info_ctor 0 15 False True ''ship mode'' =
     Inr \<lparr>idx = 0, type = 15, is_key = False, nullable = True, name = ''ship mode''\<rparr> \<and>
   toString \<lparr>idx = 0, type = 15, is_key = False, nullable = True, name = ''ship mode''\<rparr> =
     ''   0 15 0 1 ship mode   '' \<and>
   ws_fields ''   0 15 0 1 ship mode   '' = [''0'', ''15'', ''0'', ''1'', ''ship'', ''mode''] \<and>
   col_info_of_line
     (toString \<lparr>idx = 0, type = 15, is_key = False, nullable = True, name = ''ship mode''\<rparr>) =
     Inl (TablesErr BadColInfoFormat) \<and>
   col_info_ctor 0 15 False True [] =
     Inr \<lparr>idx = 0, type = 15, is_key = False, nullable = True, name = []\<rparr> \<and>
   col_info_of_line
     (toString \<lparr>idx = 0, type = 15, is_key = False, nullable = True, name = []\<rparr>) =
     Inl (TablesErr BadColInfoFormat)"
proof -
  let ?c = "\<lparr>idx = 0, type = 15, is_key = False, nullable = True, name = ''ship mode''\<rparr>"
  have ctor: "col_info_ctor 0 15 False True ''ship mode'' = Inr ?c"
    by (simp add: col_info_ctor_def and_then_def cxx_assert_def type_in_range_15)
  have "to_string_int 0 = ''0''" "to_string_int 15 = ''15''" "to_string_int 1 = ''1''"
    by code_simp+
  then have str: "toString ?c = ''   0 15 0 1 ship mode   ''"
    by (simp add: toString_def to_string_bool_def)
  have fields: "ws_fields ''   0 15 0 1 ship mode   '' = [''0'', ''15'', ''0'', ''1'', ''ship'', ''mode'']"
    by (simp add: ws_fields_def isspace_def)
  have line: "col_info_of_line (toString ?c) = Inl (TablesErr BadColInfoFormat)"
    by (simp only: str col_info_of_line_def fields) simp
  let ?e = "\<lparr>idx = 0, type = 15, is_key = False, nullable = True, name = []\<rparr>"
  have ctor_e: "col_info_ctor 0 15 False True [] = Inr ?e"
    by (simp add: col_info_ctor_def and_then_def cxx_assert_def type_in_range_15)
  have str_e: "toString ?e = ''   0 15 0 1    ''"
    using \<open>to_string_int 0 = ''0''\<close> \<open>to_string_int 15 = ''15''\<close> \<open>to_string_int 1 = ''1''\<close>
    by (simp add: toString_def to_string_bool_def)
  have fields_e: "ws_fields ''   0 15 0 1    '' = [''0'', ''15'', ''0'', ''1'']"
    by (simp add: ws_fields_def isspace_def)
  have line_e: "col_info_of_line (toString ?e) = Inl (TablesErr BadColInfoFormat)"
    by (simp only: str_e col_info_of_line_def fields_e) simp
  from ctor str fields line ctor_e line_e show ?thesis by (intro conjI)
qed

text \<open>
  C6. A \<open>col_info\<close> that either constructor returns has a type tag between \<open>SDT_INT8\<close>
  and \<open>SDT_STRING\<close> inclusive. With a tag outside this range the typed constructor
  fails its assertion, and so does the five-string constructor once both numbers are
  converted: no descriptor with such a tag is ever returned.
\<close>

theorem col_info_type_in_range:
  "(col_info_ctor i t key nulls n = Inr c \<longrightarrow>
      sdt_code SDT_INT8 \<le> sint (type c) \<and> sint (type c) \<le> sdt_code SDT_STRING) \<and>
   (col_info_of_strings si st sk sn sname = Inr c' \<longrightarrow>
      sdt_code SDT_INT8 \<le> sint (type c') \<and> sint (type c') \<le> sdt_code SDT_STRING) \<and>
   (\<not> (sdt_code SDT_INT8 \<le> sint u \<and> sint u \<le> sdt_code SDT_STRING) \<longrightarrow>
      col_info_ctor i u key nulls n = Inl AssertionFailed) \<and>
   (stoi (c_str sj) = Inr j \<and> stoi (c_str su) = Inr u' \<and>
    \<not> (sdt_code SDT_INT8 \<le> sint u' \<and> sint u' \<le> sdt_code SDT_STRING) \<longrightarrow>
      col_info_of_strings sj su sk sn sname = Inl AssertionFailed)"
  by (auto simp: col_info_ctor_def col_info_of_strings_def and_then_def cxx_assert_def
        type_in_range_def SDT_FIRST_def SDT_LAST_def split: sum.splits if_splits)

theorem col_info_type_in_range_witness:
  "col_info_ctor 0 4 True False ''orderkey'' =
     Inr \<lparr>idx = 0, type = 4, is_key = True, nullable = False, name = ''orderkey''\<rparr> \<and>
   col_info_of_strings ''0'' ''4'' ''1'' ''0'' ''orderkey'' =
     Inr \<lparr>idx = 0, type = 4, is_key = True, nullable = False, name = ''orderkey''\<rparr> \<and>
   sdt_code SDT_INT8 \<le> sint (type \<lparr>idx = 0, type = 4, is_key = True, nullable = False, name = ''orderkey''\<rparr>) \<and>
   sint (type \<lparr>idx = 0, type = 4, is_key = True, nullable = False, name = ''orderkey''\<rparr>) \<le> sdt_code SDT_STRING \<and>
   \<not> (sdt_code SDT_INT8 \<le> sint (16 :: cxx_int) \<and> sint (16 :: cxx_int) \<le> sdt_code SDT_STRING) \<and>
   col_info_ctor 0 16 True False ''orderkey'' = Inl AssertionFailed \<and>
   stoi (c_str ''0'') = Inr 0 \<and> stoi (c_str ''16'') = Inr 16 \<and>
   col_info_of_strings ''0'' ''16'' ''1'' ''0'' ''orderkey'' = Inl AssertionFailed"
proof -
  let ?c = "\<lparr>idx = 0, type = 4, is_key = True, nullable = False, name = ''orderkey''\<rparr>"
  have s0: "stoi (c_str ''0'') = Inr 0"
    by (simp add: stoi_def c_str_def isspace_def is_digit_def digit_val_def)
  have s4: "stoi (c_str ''4'') = Inr 4"
    by (simp add: stoi_def c_str_def isspace_def is_digit_def digit_val_def)
  have s16: "stoi (c_str ''16'') = Inr 16"
    by (simp add: stoi_def c_str_def isspace_def is_digit_def digit_val_def)
  have h1: "col_info_ctor 0 4 True False ''orderkey'' = Inr ?c"
    by (simp add: col_info_ctor_def and_then_def cxx_assert_def type_in_range_4)
  have h2: "col_info_of_strings ''0'' ''4'' ''1'' ''0'' ''orderkey'' = Inr ?c"
    by (simp add: col_info_of_strings_def s0 s4 and_then_def cxx_assert_def type_in_range_4
          str_front_def)
  have h3: "\<not> (sdt_code SDT_INT8 \<le> sint (16 :: cxx_int) \<and> sint (16 :: cxx_int) \<le> sdt_code SDT_STRING)"
    by simp
  note inst = col_info_type_in_range
    [where i = 0 and t = 4 and key = True and nulls = False and n = "''orderkey''" and c = ?c
       and si = "''0''" and st = "''4''" and sk = "''1''" and sn = "''0''"
       and sname = "''orderkey''" and c' = ?c and u = 16
       and sj = "''0''" and j = 0 and su = "''16''" and u' = 16]
  from inst h1 h2 h3 s0 s16 show ?thesis by blast
qed

text \<open>
  C7. \<open>compareColInfo l r\<close> holds if and only if the five fields agree; for
  descriptors this is equality.
\<close>

theorem compareColInfo_iff:
  "(compareColInfo l r \<longleftrightarrow>
      idx l = idx r \<and> type l = type r \<and> is_key l = is_key r \<and>
      nullable l = nullable r \<and> name l = name r) \<and>
   (compareColInfo l r \<longleftrightarrow> l = r)"
  by (cases l, cases r) (auto simp: compareColInfo_def)


subsection \<open>Predicates\<close>

lemma sint_sot_int: "sint (sot_int s) = sot_code s"
  by (cases s) (simp_all add: sot_int_def)

lemma sot_of_like: "sot_of op = Some SOT_like \<longleftrightarrow> is_sot op SOT_like"
  by (simp add: sot_of_def is_sot_def sot_all_def)

lemma is_sot_sot_int: "is_sot (sot_int s) s' \<longleftrightarrow> s = s'"
  by (cases s; cases s') (simp_all add: is_sot_def sint_sot_int)

lemma ctor_switch_like:
  "ctor_switch T ct (sot_int SOT_like) =
     cxx_assert ((T = T_string \<or> T = T_unsigned_char \<or> T = T_char) \<and>
                 (is_sdt ct SDT_STRING \<or> is_sdt ct SDT_CHAR \<or> is_sdt ct SDT_UCHAR))"
  by (simp add: ctor_switch_def)

lemma ctor_switch_lt:
  "ctor_switch T_int64 (sdt_int SDT_INT64) (sot_int SOT_lt) = Inr ()"
  by (simp add: ctor_switch_def cxx_assert_def is_arithmetic_def is_integral_def is_sdt_def sdt_int_def)

lemma TypedPredicate_ctor_like:
  "TypedPredicate_ctor T as_string re2_ok i t (sot_int SOT_like) v =
     (if (T = T_string \<or> T = T_unsigned_char \<or> T = T_char) \<and>
         (is_sdt t SDT_STRING \<or> is_sdt t SDT_CHAR \<or> is_sdt t SDT_UCHAR) \<and>
         re2_ok (as_string v)
      then Inr \<lparr>col_idx = i, col_type = t, op_type = sot_int SOT_like, is_global_agg = False,
                regx = RE2 (as_string v), value = v\<rparr>
      else Inl AssertionFailed)"
  by (simp add: TypedPredicate_ctor_def ctor_switch_like is_sot_sot_int cxx_assert_def and_then_def)

text \<open>
  C8. The constructor with the match operator \<open>SOT_like\<close> returns a predicate exactly
  when the value type is \<open>std::string\<close>, \<open>char\<close> or \<open>unsigned char\<close>, the declared
  column type is \<open>SDT_STRING\<close>, \<open>SDT_CHAR\<close> or \<open>SDT_UCHAR\<close>, and the pattern compiles.
  In every other case an assertion of the constructor fails. Hence a constructed
  predicate whose operator is \<open>SOT_like\<close> has such a value type and column type, and
  its \<open>regx\<close> points to the compiled pattern of its value.
\<close>

theorem TypedPredicate_like_construction:
  "((\<exists>p. TypedPredicate_ctor T as_string re2_ok i t (sot_int SOT_like) v = Inr p) \<longleftrightarrow>
      (T = T_string \<or> T = T_char \<or> T = T_unsigned_char) \<and>
      (is_sdt t SDT_STRING \<or> is_sdt t SDT_CHAR \<or> is_sdt t SDT_UCHAR) \<and>
      re2_ok (as_string v)) \<and>
   (\<not> ((T = T_string \<or> T = T_char \<or> T = T_unsigned_char) \<and>
        (is_sdt t SDT_STRING \<or> is_sdt t SDT_CHAR \<or> is_sdt t SDT_UCHAR) \<and>
        re2_ok (as_string v)) \<longrightarrow>
      TypedPredicate_ctor T as_string re2_ok i t (sot_int SOT_like) v = Inl AssertionFailed) \<and>
   (TypedPredicate_ctor T' as_string re2_ok i' t' op v' = Inr p' \<and> is_sot (op_type p') SOT_like \<longrightarrow>
      (T' = T_string \<or> T' = T_char \<or> T' = T_unsigned_char) \<and>
      (is_sdt (col_type p') SDT_STRING \<or> is_sdt (col_type p') SDT_CHAR \<or>
       is_sdt (col_type p') SDT_UCHAR) \<and>
      regx p' = RE2 (as_string (value p')) \<and> re2_ok (as_string (value p')))"
proof -
  let ?ok = "(T = T_string \<or> T = T_char \<or> T = T_unsigned_char) \<and>
      (is_sdt t SDT_STRING \<or> is_sdt t SDT_CHAR \<or> is_sdt t SDT_UCHAR) \<and>
      re2_ok (as_string v)"
  have A: "(\<exists>p. TypedPredicate_ctor T as_string re2_ok i t (sot_int SOT_like) v = Inr p) \<longleftrightarrow> ?ok"
    by (auto simp: TypedPredicate_ctor_like)
  have B: "\<not> ?ok \<longrightarrow>
      TypedPredicate_ctor T as_string re2_ok i t (sot_int SOT_like) v = Inl AssertionFailed"
    by (auto simp: TypedPredicate_ctor_like)
  have C: "TypedPredicate_ctor T' as_string re2_ok i' t' op v' = Inr p' \<and> is_sot (op_type p') SOT_like \<longrightarrow>
      (T' = T_string \<or> T' = T_char \<or> T' = T_unsigned_char) \<and>
      (is_sdt (col_type p') SDT_STRING \<or> is_sdt (col_type p') SDT_CHAR \<or>
       is_sdt (col_type p') SDT_UCHAR) \<and>
      regx p' = RE2 (as_string (value p')) \<and> re2_ok (as_string (value p'))"
  proof (rule impI)
    assume a: "TypedPredicate_ctor T' as_string re2_ok i' t' op v' = Inr p' \<and> is_sot (op_type p') SOT_like"
    then have ok: "TypedPredicate_ctor T' as_string re2_ok i' t' op v' = Inr p'" by simp
    have opp: "op_type p' = op"
      using ok
      by (auto simp: TypedPredicate_ctor_def Let_def and_then_def cxx_assert_def
            split: sum.splits if_splits)
    with a have like: "is_sot op SOT_like" by simp
    then have sw: "sot_of op = Some SOT_like" by (simp add: sot_of_like)
    have c: "ctor_switch T' t' op =
       cxx_assert ((T' = T_string \<or> T' = T_unsigned_char \<or> T' = T_char) \<and>
                   (is_sdt t' SDT_STRING \<or> is_sdt t' SDT_CHAR \<or> is_sdt t' SDT_UCHAR))"
      by (simp add: ctor_switch_def sw)
    show "(T' = T_string \<or> T' = T_char \<or> T' = T_unsigned_char) \<and>
        (is_sdt (col_type p') SDT_STRING \<or> is_sdt (col_type p') SDT_CHAR \<or>
         is_sdt (col_type p') SDT_UCHAR) \<and>
        regx p' = RE2 (as_string (value p')) \<and> re2_ok (as_string (value p'))"
      using ok like
      by (auto simp: TypedPredicate_ctor_def c Let_def and_then_def cxx_assert_def
            split: sum.splits if_splits)
  qed
  show ?thesis by (rule conjI [OF A conjI [OF B C]])
qed

theorem TypedPredicate_like_construction_witness:
  "\<not> ((T_string = T_string \<or> T_string = T_char \<or> T_string = T_unsigned_char) \<and>
       (is_sdt (sdt_int SDT_FLOAT) SDT_STRING \<or> is_sdt (sdt_int SDT_FLOAT) SDT_CHAR \<or>
        is_sdt (sdt_int SDT_FLOAT) SDT_UCHAR) \<and>
       ''ship.*'' = ''ship.*'') \<and>
   TypedPredicate_ctor T_string (\<lambda>s. s) (\<lambda>pat. pat = ''ship.*'') 4 (sdt_int SDT_FLOAT)
     (sot_int SOT_like) ''ship.*'' = Inl AssertionFailed \<and>
   TypedPredicate_ctor T_string (\<lambda>s. s) (\<lambda>pat. pat = ''ship.*'') 14 (sdt_int SDT_STRING)
     (sot_int SOT_like) ''ship.*'' =
     Inr \<lparr>col_idx = 14, col_type = sdt_int SDT_STRING, op_type = sot_int SOT_like,
          is_global_agg = False, regx = RE2 ''ship.*'', value = ''ship.*''\<rparr> \<and>
   is_sot (op_type \<lparr>col_idx = 14, col_type = sdt_int SDT_STRING, op_type = sot_int SOT_like,
          is_global_agg = False, regx = RE2 ''ship.*'', value = ''ship.*''\<rparr>) SOT_like \<and>
   regx \<lparr>col_idx = 14, col_type = sdt_int SDT_STRING, op_type = sot_int SOT_like,
          is_global_agg = False, regx = RE2 ''ship.*'', value = ''ship.*''\<rparr> =
     RE2 ((\<lambda>s. s) (value \<lparr>col_idx = 14, col_type = sdt_int SDT_STRING, op_type = sot_int SOT_like,
          is_global_agg = False, regx = RE2 ''ship.*'', value = ''ship.*''\<rparr>))"
proof -
  let ?p = "\<lparr>col_idx = 14, col_type = sdt_int SDT_STRING, op_type = sot_int SOT_like,
          is_global_agg = False, regx = RE2 ''ship.*'', value = ''ship.*''\<rparr>"
  have h1: "\<not> ((T_string = T_string \<or> T_string = T_char \<or> T_string = T_unsigned_char) \<and>
       (is_sdt (sdt_int SDT_FLOAT) SDT_STRING \<or> is_sdt (sdt_int SDT_FLOAT) SDT_CHAR \<or>
        is_sdt (sdt_int SDT_FLOAT) SDT_UCHAR) \<and>
       (\<lambda>pat. pat = ''ship.*'') ((\<lambda>s. s) ''ship.*''))"
    by (simp add: is_sdt_def sdt_int_def)
  have h2: "TypedPredicate_ctor T_string (\<lambda>s. s) (\<lambda>pat. pat = ''ship.*'') 14 (sdt_int SDT_STRING)
     (sot_int SOT_like) ''ship.*'' = Inr ?p"
    by (simp add: TypedPredicate_ctor_like is_sdt_def sdt_int_def)
  have h3: "is_sot (op_type ?p) SOT_like"
    by (simp add: is_sot_sot_int)
  note inst = TypedPredicate_like_construction
    [where T = T_string and as_string = "\<lambda>s. s" and re2_ok = "\<lambda>pat. pat = ''ship.*''"
       and i = 4 and t = "sdt_int SDT_FLOAT" and v = "''ship.*''"
       and T' = T_string and i' = 14 and t' = "sdt_int SDT_STRING" and op = "sot_int SOT_like"
       and v' = "''ship.*''" and p' = ?p]
  from inst h1 h2 h3 show ?thesis by simp
qed

lemma TypedPredicate_copy_like:
  assumes "TypedPredicate_ctor T as_string re2_ok i t op v = Inr p"
    and "is_sot op SOT_like"
  shows "\<exists>q. TypedPredicate_copy p = Inr q \<and> col_idx q = col_idx p \<and> col_type q = col_type p \<and>
             op_type q = op_type p \<and> is_global_agg q = is_global_agg p \<and> value q = value p \<and>
             regx q = regx p"
  using assms
  by (auto simp: TypedPredicate_ctor_def TypedPredicate_copy_def Let_def and_then_def cxx_assert_def
        split: sum.splits if_splits)

lemma TypedPredicate_copy_not_like:
  assumes "TypedPredicate_ctor T as_string re2_ok i t op v = Inr p"
    and "\<not> is_sot op SOT_like"
  shows "TypedPredicate_copy p = Inl UndefinedBehaviour"
  using assms
  by (auto simp: TypedPredicate_ctor_def TypedPredicate_copy_def Let_def and_then_def cxx_assert_def
        split: sum.splits if_splits)

text \<open>
  C10. Copying is not defined for every constructed predicate. A predicate over an
  \<open>int64_t\<close> value with the operator \<open>SOT_lt\<close> on an \<open>SDT_INT64\<close> column is constructed
  without failure and with \<open>regx\<close> never assigned; its copy constructor reads through
  that pointer. For a predicate with the match operator the copy has the same members
  (\<open>TypedPredicate_copy_like\<close>); for every other one the copy is undefined
  (\<open>TypedPredicate_copy_not_like\<close>).
\<close>

theorem TypedPredicate_copy_unassigned_regx:
  "TypedPredicate_ctor T_int64 as_string re2_ok 0 (sdt_int SDT_INT64) (sot_int SOT_lt) (5 :: 64 word) =
     Inr \<lparr>col_idx = 0, col_type = sdt_int SDT_INT64, op_type = sot_int SOT_lt,
          is_global_agg = False, regx = Unassigned, value = 5\<rparr> \<and>
   TypedPredicate_copy
     \<lparr>col_idx = 0, col_type = sdt_int SDT_INT64, op_type = sot_int SOT_lt,
      is_global_agg = False, regx = Unassigned, value = (5 :: 64 word)\<rparr> = Inl UndefinedBehaviour"
  by (simp add: TypedPredicate_ctor_def ctor_switch_lt is_sot_sot_int and_then_def
        TypedPredicate_copy_def)


subsection \<open>The lineitem test schema\<close>

lemma lineitem_test_schema_string_text:
  "lineitem_test_schema_string =
     ''     0 4 1 0 orderkey '' @ nl @ ''    1 3 0 1 partkey '' @ nl @
     ''    2 3 0 1 suppkey '' @ nl @ ''    3 4 1 0 linenumber '' @ nl @
     ''    4 12 0 1 quantity '' @ nl @ ''    5 13 0 1 extendedprice '' @ nl @
     ''    6 12 0 1 discount '' @ nl @ ''    7 13 0 1 tax '' @ nl @
     ''    8 9 0 1 returnflag '' @ nl @ ''    9 9 0 1 linestatus '' @ nl @
     ''    10 14 0 1 shipdate '' @ nl @ ''    11 14 0 1 commitdate '' @ nl @
     ''    12 14 0 1 receipdate '' @ nl @ ''    13 15 0 1 shipinstruct '' @ nl @
     ''    14 15 0 1 shipmode '' @ nl @ ''    15 15 0 1 comment '' @ nl @ ''    ''"
proof -
  have "to_string_int (sdt_int SDT_INT64) = ''4''" "to_string_int (sdt_int SDT_INT32) = ''3''"
    "to_string_int (sdt_int SDT_FLOAT) = ''12''" "to_string_int (sdt_int SDT_DOUBLE) = ''13''"
    "to_string_int (sdt_int SDT_CHAR) = ''9''" "to_string_int (sdt_int SDT_DATE) = ''14''"
    "to_string_int (sdt_int SDT_STRING) = ''15''"
    by code_simp+
  then show ?thesis by (simp add: lineitem_test_schema_string_def)
qed

lemma lineitem_lines:
  "split_fields (\<lambda>c. c = CHR 0x0A) [] lineitem_test_schema_string =
     [''     0 4 1 0 orderkey '', ''    1 3 0 1 partkey '',
      ''    2 3 0 1 suppkey '', ''    3 4 1 0 linenumber '',
      ''    4 12 0 1 quantity '', ''    5 13 0 1 extendedprice '',
      ''    6 12 0 1 discount '', ''    7 13 0 1 tax '',
      ''    8 9 0 1 returnflag '', ''    9 9 0 1 linestatus '',
      ''    10 14 0 1 shipdate '', ''    11 14 0 1 commitdate '',
      ''    12 14 0 1 receipdate '', ''    13 15 0 1 shipinstruct '',
      ''    14 15 0 1 shipmode '', ''    15 15 0 1 comment '', ''    '']"
  by (simp add: lineitem_test_schema_string_text nl_def)


lemma stoi_small:
  "stoi (c_str ''0'') = Inr 0" "stoi (c_str ''1'') = Inr 1" "stoi (c_str ''2'') = Inr 2"
  "stoi (c_str ''3'') = Inr 3" "stoi (c_str ''4'') = Inr 4" "stoi (c_str ''5'') = Inr 5"
  "stoi (c_str ''6'') = Inr 6" "stoi (c_str ''7'') = Inr 7" "stoi (c_str ''8'') = Inr 8"
  "stoi (c_str ''9'') = Inr 9" "stoi (c_str ''10'') = Inr 10" "stoi (c_str ''11'') = Inr 11"
  "stoi (c_str ''12'') = Inr 12" "stoi (c_str ''13'') = Inr 13" "stoi (c_str ''14'') = Inr 14"
  "stoi (c_str ''15'') = Inr 15"
  by (simp_all add: stoi_def c_str_def isspace_def is_digit_def digit_val_def)

lemma type_in_range_small:
  "type_in_range 3" "type_in_range 4" "type_in_range 9" "type_in_range 12"
  "type_in_range 13" "type_in_range 14" "type_in_range 15"
  by (simp_all add: type_in_range_def SDT_FIRST_def SDT_LAST_def)

lemma lineitem_line_fields:
  "ws_fields ''     0 4 1 0 orderkey '' = [''0'', ''4'', ''1'', ''0'', ''orderkey'']"
  "ws_fields ''    1 3 0 1 partkey '' = [''1'', ''3'', ''0'', ''1'', ''partkey'']"
  "ws_fields ''    2 3 0 1 suppkey '' = [''2'', ''3'', ''0'', ''1'', ''suppkey'']"
  "ws_fields ''    3 4 1 0 linenumber '' = [''3'', ''4'', ''1'', ''0'', ''linenumber'']"
  "ws_fields ''    4 12 0 1 quantity '' = [''4'', ''12'', ''0'', ''1'', ''quantity'']"
  "ws_fields ''    5 13 0 1 extendedprice '' = [''5'', ''13'', ''0'', ''1'', ''extendedprice'']"
  "ws_fields ''    6 12 0 1 discount '' = [''6'', ''12'', ''0'', ''1'', ''discount'']"
  "ws_fields ''    7 13 0 1 tax '' = [''7'', ''13'', ''0'', ''1'', ''tax'']"
  "ws_fields ''    8 9 0 1 returnflag '' = [''8'', ''9'', ''0'', ''1'', ''returnflag'']"
  "ws_fields ''    9 9 0 1 linestatus '' = [''9'', ''9'', ''0'', ''1'', ''linestatus'']"
  "ws_fields ''    10 14 0 1 shipdate '' = [''10'', ''14'', ''0'', ''1'', ''shipdate'']"
  "ws_fields ''    11 14 0 1 commitdate '' = [''11'', ''14'', ''0'', ''1'', ''commitdate'']"
  "ws_fields ''    12 14 0 1 receipdate '' = [''12'', ''14'', ''0'', ''1'', ''receipdate'']"
  "ws_fields ''    13 15 0 1 shipinstruct '' = [''13'', ''15'', ''0'', ''1'', ''shipinstruct'']"
  "ws_fields ''    14 15 0 1 shipmode '' = [''14'', ''15'', ''0'', ''1'', ''shipmode'']"
  "ws_fields ''    15 15 0 1 comment '' = [''15'', ''15'', ''0'', ''1'', ''comment'']"
  "ws_fields ''    '' = []"
  by (simp_all add: ws_fields_def isspace_def)

lemma lineitem_line_cols:
  "col_info_of_line ''     0 4 1 0 orderkey '' =
     Inr \<lparr>idx = 0, type = 4, is_key = True, nullable = False, name = ''orderkey''\<rparr>"
  "col_info_of_line ''    1 3 0 1 partkey '' =
     Inr \<lparr>idx = 1, type = 3, is_key = False, nullable = True, name = ''partkey''\<rparr>"
  "col_info_of_line ''    2 3 0 1 suppkey '' =
     Inr \<lparr>idx = 2, type = 3, is_key = False, nullable = True, name = ''suppkey''\<rparr>"
  "col_info_of_line ''    3 4 1 0 linenumber '' =
     Inr \<lparr>idx = 3, type = 4, is_key = True, nullable = False, name = ''linenumber''\<rparr>"
  "col_info_of_line ''    4 12 0 1 quantity '' =
     Inr \<lparr>idx = 4, type = 12, is_key = False, nullable = True, name = ''quantity''\<rparr>"
  "col_info_of_line ''    5 13 0 1 extendedprice '' =
     Inr \<lparr>idx = 5, type = 13, is_key = False, nullable = True, name = ''extendedprice''\<rparr>"
  "col_info_of_line ''    6 12 0 1 discount '' =
     Inr \<lparr>idx = 6, type = 12, is_key = False, nullable = True, name = ''discount''\<rparr>"
  "col_info_of_line ''    7 13 0 1 tax '' =
     Inr \<lparr>idx = 7, type = 13, is_key = False, nullable = True, name = ''tax''\<rparr>"
  "col_info_of_line ''    8 9 0 1 returnflag '' =
     Inr \<lparr>idx = 8, type = 9, is_key = False, nullable = True, name = ''returnflag''\<rparr>"
  "col_info_of_line ''    9 9 0 1 linestatus '' =
     Inr \<lparr>idx = 9, type = 9, is_key = False, nullable = True, name = ''linestatus''\<rparr>"
  "col_info_of_line ''    10 14 0 1 shipdate '' =
     Inr \<lparr>idx = 10, type = 14, is_key = False, nullable = True, name = ''shipdate''\<rparr>"
  "col_info_of_line ''    11 14 0 1 commitdate '' =
     Inr \<lparr>idx = 11, type = 14, is_key = False, nullable = True, name = ''commitdate''\<rparr>"
  "col_info_of_line ''    12 14 0 1 receipdate '' =
     Inr \<lparr>idx = 12, type = 14, is_key = False, nullable = True, name = ''receipdate''\<rparr>"
  "col_info_of_line ''    13 15 0 1 shipinstruct '' =
     Inr \<lparr>idx = 13, type = 15, is_key = False, nullable = True, name = ''shipinstruct''\<rparr>"
  "col_info_of_line ''    14 15 0 1 shipmode '' =
     Inr \<lparr>idx = 14, type = 15, is_key = False, nullable = True, name = ''shipmode''\<rparr>"
  "col_info_of_line ''    15 15 0 1 comment '' =
     Inr \<lparr>idx = 15, type = 15, is_key = False, nullable = True, name = ''comment''\<rparr>"
  by (simp_all add: col_info_of_line_def lineitem_line_fields col_info_of_strings_def stoi_small
        type_in_range_small and_then_def cxx_assert_def str_front_def)

text \<open>
  C9. The test schema text parses into 16 column descriptors, with the types and key
  flags listed, and projecting them by \<open>orderkey,quantity\<close> gives the two descriptors
  with \<open>idx\<close> 0 and 4. The names are those of the claim except the thirteenth: the
  header spells it \<open>receipdate\<close>, not \<open>receiptdate\<close>.
\<close>

theorem lineitem_test_schema_parse:
  "schemaFromString lineitem_test_schema_string =
     Inr [\<lparr>idx = 0, type = 4, is_key = True, nullable = False, name = ''orderkey''\<rparr>,
          \<lparr>idx = 1, type = 3, is_key = False, nullable = True, name = ''partkey''\<rparr>,
          \<lparr>idx = 2, type = 3, is_key = False, nullable = True, name = ''suppkey''\<rparr>,
          \<lparr>idx = 3, type = 4, is_key = True, nullable = False, name = ''linenumber''\<rparr>,
          \<lparr>idx = 4, type = 12, is_key = False, nullable = True, name = ''quantity''\<rparr>,
          \<lparr>idx = 5, type = 13, is_key = False, nullable = True, name = ''extendedprice''\<rparr>,
          \<lparr>idx = 6, type = 12, is_key = False, nullable = True, name = ''discount''\<rparr>,
          \<lparr>idx = 7, type = 13, is_key = False, nullable = True, name = ''tax''\<rparr>,
          \<lparr>idx = 8, type = 9, is_key = False, nullable = True, name = ''returnflag''\<rparr>,
          \<lparr>idx = 9, type = 9, is_key = False, nullable = True, name = ''linestatus''\<rparr>,
          \<lparr>idx = 10, type = 14, is_key = False, nullable = True, name = ''shipdate''\<rparr>,
          \<lparr>idx = 11, type = 14, is_key = False, nullable = True, name = ''commitdate''\<rparr>,
          \<lparr>idx = 12, type = 14, is_key = False, nullable = True, name = ''receipdate''\<rparr>,
          \<lparr>idx = 13, type = 15, is_key = False, nullable = True, name = ''shipinstruct''\<rparr>,
          \<lparr>idx = 14, type = 15, is_key = False, nullable = True, name = ''shipmode''\<rparr>,
          \<lparr>idx = 15, type = 15, is_key = False, nullable = True, name = ''comment''\<rparr>] \<and>
   schemaFromColNames
     [\<lparr>idx = 0, type = 4, is_key = True, nullable = False, name = ''orderkey''\<rparr>,
      \<lparr>idx = 1, type = 3, is_key = False, nullable = True, name = ''partkey''\<rparr>,
      \<lparr>idx = 2, type = 3, is_key = False, nullable = True, name = ''suppkey''\<rparr>,
      \<lparr>idx = 3, type = 4, is_key = True, nullable = False, name = ''linenumber''\<rparr>,
      \<lparr>idx = 4, type = 12, is_key = False, nullable = True, name = ''quantity''\<rparr>,
      \<lparr>idx = 5, type = 13, is_key = False, nullable = True, name = ''extendedprice''\<rparr>,
      \<lparr>idx = 6, type = 12, is_key = False, nullable = True, name = ''discount''\<rparr>,
      \<lparr>idx = 7, type = 13, is_key = False, nullable = True, name = ''tax''\<rparr>,
      \<lparr>idx = 8, type = 9, is_key = False, nullable = True, name = ''returnflag''\<rparr>,
      \<lparr>idx = 9, type = 9, is_key = False, nullable = True, name = ''linestatus''\<rparr>,
      \<lparr>idx = 10, type = 14, is_key = False, nullable = True, name = ''shipdate''\<rparr>,
      \<lparr>idx = 11, type = 14, is_key = False, nullable = True, name = ''commitdate''\<rparr>,
      \<lparr>idx = 12, type = 14, is_key = False, nullable = True, name = ''receipdate''\<rparr>,
      \<lparr>idx = 13, type = 15, is_key = False, nullable = True, name = ''shipinstruct''\<rparr>,
      \<lparr>idx = 14, type = 15, is_key = False, nullable = True, name = ''shipmode''\<rparr>,
      \<lparr>idx = 15, type = 15, is_key = False, nullable = True, name = ''comment''\<rparr>]
     ''orderkey,quantity'' =
     Inr [\<lparr>idx = 0, type = 4, is_key = True, nullable = False, name = ''orderkey''\<rparr>,
          \<lparr>idx = 4, type = 12, is_key = False, nullable = True, name = ''quantity''\<rparr>] \<and>
   (case schemaFromString lineitem_test_schema_string of
      Inl e \<Rightarrow> [] | Inr cols \<Rightarrow> map name cols) =
     [''orderkey'', ''partkey'', ''suppkey'', ''linenumber'', ''quantity'', ''extendedprice'',
      ''discount'', ''tax'', ''returnflag'', ''linestatus'', ''shipdate'', ''commitdate'',
      ''receipdate'', ''shipinstruct'', ''shipmode'', ''comment''] \<and>
   (case schemaFromString lineitem_test_schema_string of
      Inl e \<Rightarrow> [] | Inr cols \<Rightarrow> map name cols) \<noteq>
     [''orderkey'', ''partkey'', ''suppkey'', ''linenumber'', ''quantity'', ''extendedprice'',
      ''discount'', ''tax'', ''returnflag'', ''linestatus'', ''shipdate'', ''commitdate'',
      ''receiptdate'', ''shipinstruct'', ''shipmode'', ''comment'']"
proof -
  have parse: "schemaFromString lineitem_test_schema_string =
     Inr [\<lparr>idx = 0, type = 4, is_key = True, nullable = False, name = ''orderkey''\<rparr>,
          \<lparr>idx = 1, type = 3, is_key = False, nullable = True, name = ''partkey''\<rparr>,
          \<lparr>idx = 2, type = 3, is_key = False, nullable = True, name = ''suppkey''\<rparr>,
          \<lparr>idx = 3, type = 4, is_key = True, nullable = False, name = ''linenumber''\<rparr>,
          \<lparr>idx = 4, type = 12, is_key = False, nullable = True, name = ''quantity''\<rparr>,
          \<lparr>idx = 5, type = 13, is_key = False, nullable = True, name = ''extendedprice''\<rparr>,
          \<lparr>idx = 6, type = 12, is_key = False, nullable = True, name = ''discount''\<rparr>,
          \<lparr>idx = 7, type = 13, is_key = False, nullable = True, name = ''tax''\<rparr>,
          \<lparr>idx = 8, type = 9, is_key = False, nullable = True, name = ''returnflag''\<rparr>,
          \<lparr>idx = 9, type = 9, is_key = False, nullable = True, name = ''linestatus''\<rparr>,
          \<lparr>idx = 10, type = 14, is_key = False, nullable = True, name = ''shipdate''\<rparr>,
          \<lparr>idx = 11, type = 14, is_key = False, nullable = True, name = ''commitdate''\<rparr>,
          \<lparr>idx = 12, type = 14, is_key = False, nullable = True, name = ''receipdate''\<rparr>,
          \<lparr>idx = 13, type = 15, is_key = False, nullable = True, name = ''shipinstruct''\<rparr>,
          \<lparr>idx = 14, type = 15, is_key = False, nullable = True, name = ''shipmode''\<rparr>,
          \<lparr>idx = 15, type = 15, is_key = False, nullable = True, name = ''comment''\<rparr>]"
    unfolding schemaFromString_def lineitem_lines
    by (simp add: lineitem_line_fields lineitem_line_cols and_then_def)
  have names: "split_fields (\<lambda>c. c = CHR '','') [] ''orderkey,quantity'' = [''orderkey'', ''quantity'']"
    by simp
  have proj: "schemaFromColNames
     [\<lparr>idx = 0, type = 4, is_key = True, nullable = False, name = ''orderkey''\<rparr>,
      \<lparr>idx = 1, type = 3, is_key = False, nullable = True, name = ''partkey''\<rparr>,
      \<lparr>idx = 2, type = 3, is_key = False, nullable = True, name = ''suppkey''\<rparr>,
      \<lparr>idx = 3, type = 4, is_key = True, nullable = False, name = ''linenumber''\<rparr>,
      \<lparr>idx = 4, type = 12, is_key = False, nullable = True, name = ''quantity''\<rparr>,
      \<lparr>idx = 5, type = 13, is_key = False, nullable = True, name = ''extendedprice''\<rparr>,
      \<lparr>idx = 6, type = 12, is_key = False, nullable = True, name = ''discount''\<rparr>,
      \<lparr>idx = 7, type = 13, is_key = False, nullable = True, name = ''tax''\<rparr>,
      \<lparr>idx = 8, type = 9, is_key = False, nullable = True, name = ''returnflag''\<rparr>,
      \<lparr>idx = 9, type = 9, is_key = False, nullable = True, name = ''linestatus''\<rparr>,
      \<lparr>idx = 10, type = 14, is_key = False, nullable = True, name = ''shipdate''\<rparr>,
      \<lparr>idx = 11, type = 14, is_key = False, nullable = True, name = ''commitdate''\<rparr>,
      \<lparr>idx = 12, type = 14, is_key = False, nullable = True, name = ''receipdate''\<rparr>,
      \<lparr>idx = 13, type = 15, is_key = False, nullable = True, name = ''shipinstruct''\<rparr>,
      \<lparr>idx = 14, type = 15, is_key = False, nullable = True, name = ''shipmode''\<rparr>,
      \<lparr>idx = 15, type = 15, is_key = False, nullable = True, name = ''comment''\<rparr>]
     ''orderkey,quantity'' =
     Inr [\<lparr>idx = 0, type = 4, is_key = True, nullable = False, name = ''orderkey''\<rparr>,
          \<lparr>idx = 4, type = 12, is_key = False, nullable = True, name = ''quantity''\<rparr>]"
    unfolding schemaFromColNames_def names
    by (simp add: PROJECT_DEFAULT_def compareName_def and_then_def)
  have names_code: "(case schemaFromString lineitem_test_schema_string of
      Inl e \<Rightarrow> [] | Inr cols \<Rightarrow> map name cols) =
     [''orderkey'', ''partkey'', ''suppkey'', ''linenumber'', ''quantity'', ''extendedprice'',
      ''discount'', ''tax'', ''returnflag'', ''linestatus'', ''shipdate'', ''commitdate'',
      ''receipdate'', ''shipinstruct'', ''shipmode'', ''comment'']"
    by (simp add: parse)
  have names_claim: "(case schemaFromString lineitem_test_schema_string of
      Inl e \<Rightarrow> [] | Inr cols \<Rightarrow> map name cols) \<noteq>
     [''orderkey'', ''partkey'', ''suppkey'', ''linenumber'', ''quantity'', ''extendedprice'',
      ''discount'', ''tax'', ''returnflag'', ''linestatus'', ''shipdate'', ''commitdate'',
      ''receiptdate'', ''shipinstruct'', ''shipmode'', ''comment'']"
    by (simp add: parse)
  show ?thesis by (rule conjI [OF parse conjI [OF proj conjI [OF names_code names_claim]]])
qed

end
